theory Spec2Isabelle
  imports Complex_Main
begin

section \<open>Numbers and series\<close>

text \<open>
  Python floats are modelled as real numbers plus the three special values of IEEE
  arithmetic: \<open>NaN\<close> and the two infinities. Rounding error and the sign of zero are
  outside the model. Prices and volumes of bars (open, high, low, close, volume) are
  \<^typ>\<open>real\<close>: the feed delivers numbers. Indicator columns (RSI, ATR, the EMAs) are
  \<open>fval\<close>: rolling windows leave them undefined at the start of a series.

  Every comparison with \<open>NaN\<close> is false. \<open>pd.isna\<close> is true of \<open>NaN\<close> only.
\<close>

datatype fval = NaN | Fin real | PInf | NInf

fun isna :: "fval \<Rightarrow> bool" where
  "isna NaN = True"
| "isna _ = False"

fun flt :: "fval \<Rightarrow> fval \<Rightarrow> bool" where
  "flt (Fin a) (Fin b) = (a < b)"
| "flt NInf (Fin b) = True"
| "flt NInf PInf = True"
| "flt (Fin a) PInf = True"
| "flt _ _ = False"

fun fgt :: "fval \<Rightarrow> fval \<Rightarrow> bool" where
  "fgt (Fin a) (Fin b) = (a > b)"
| "fgt (Fin a) NInf = True"
| "fgt PInf NInf = True"
| "fgt PInf (Fin b) = True"
| "fgt _ _ = False"

fun feq :: "fval \<Rightarrow> fval \<Rightarrow> bool" where
  "feq (Fin a) (Fin b) = (a = b)"
| "feq PInf PInf = True"
| "feq NInf NInf = True"
| "feq _ _ = False"

fun fneg :: "fval \<Rightarrow> fval" where
  "fneg (Fin a) = Fin (- a)"
| "fneg PInf = NInf"
| "fneg NInf = PInf"
| "fneg NaN = NaN"

fun fabs :: "fval \<Rightarrow> fval" where
  "fabs (Fin a) = Fin \<bar>a\<bar>"
| "fabs PInf = PInf"
| "fabs NInf = PInf"
| "fabs NaN = NaN"

text \<open>Opposite infinities add up to \<open>NaN\<close>; an infinity absorbs every number.\<close>

fun fadd :: "fval \<Rightarrow> fval \<Rightarrow> fval" where
  "fadd (Fin a) (Fin b) = Fin (a + b)"
| "fadd NaN _ = NaN"
| "fadd _ NaN = NaN"
| "fadd PInf NInf = NaN"
| "fadd NInf PInf = NaN"
| "fadd PInf _ = PInf"
| "fadd _ PInf = PInf"
| "fadd NInf _ = NInf"
| "fadd _ NInf = NInf"

fun fsub :: "fval \<Rightarrow> fval \<Rightarrow> fval" where
  "fsub (Fin a) (Fin b) = Fin (a - b)"
| "fsub x y = fadd x (fneg y)"

text \<open>
  Division as numpy does it, without raising: a non-zero number over zero is an
  infinity with the sign of the numerator, zero over zero is \<open>NaN\<close>, a number over
  an infinity is zero, and an infinity over an infinity is \<open>NaN\<close>.
\<close>

fun fdiv :: "fval \<Rightarrow> fval \<Rightarrow> fval" where
  "fdiv (Fin a) (Fin b) =
     (if b \<noteq> 0 then Fin (a / b)
      else if a > 0 then PInf
      else if a < 0 then NInf
      else NaN)"
| "fdiv NaN _ = NaN"
| "fdiv _ NaN = NaN"
| "fdiv (Fin a) _ = Fin 0"
| "fdiv PInf (Fin b) = (if b < 0 then NInf else PInf)"
| "fdiv NInf (Fin b) = (if b < 0 then PInf else NInf)"
| "fdiv _ _ = NaN"

datatype py_error = IndexError | NonFinite

text \<open>
  Positional access \<open>series.iloc[i]\<close>. Positions \<open>0 .. len - 1\<close> read from the front,
  positions \<open>-len .. -1\<close> read from the back, and any other position raises
  IndexError.
\<close>

definition iloc :: "'a list \<Rightarrow> int \<Rightarrow> py_error + 'a" where
  "iloc xs i =
     (if 0 \<le> i \<and> i < int (length xs) then Inr (xs ! nat i)
      else if - int (length xs) \<le> i \<and> i < 0 then Inr (xs ! nat (int (length xs) + i))
      else Inl IndexError)"

section \<open>indicator\_calculator.py: pivots\<close>

text \<open>
  The loop \<open>for i in range(index - lookback, index + lookback + 1)\<close> of
  \<open>find_pivot_high\<close>, over the list of positions still to visit.
\<close>

fun pivot_high_loop :: "real list \<Rightarrow> int \<Rightarrow> real \<Rightarrow> int list \<Rightarrow> py_error + bool" where
  "pivot_high_loop highs index current [] = Inr True"
| "pivot_high_loop highs index current (i # rest) =
     (if i \<noteq> index then
        (case iloc highs i of
           Inl e \<Rightarrow> Inl e
         | Inr v \<Rightarrow> if v \<ge> current then Inr False
                    else pivot_high_loop highs index current rest)
      else pivot_high_loop highs index current rest)"

definition find_pivot_high :: "real list \<Rightarrow> int \<Rightarrow> int \<Rightarrow> py_error + bool" where
  "find_pivot_high highs index lookback =
     (if index < lookback \<or> index \<ge> int (length highs) - lookback then Inr False
      else case iloc highs index of
             Inl e \<Rightarrow> Inl e
           | Inr current \<Rightarrow>
               pivot_high_loop highs index current [index - lookback .. index + lookback])"

fun pivot_low_loop :: "real list \<Rightarrow> int \<Rightarrow> real \<Rightarrow> int list \<Rightarrow> py_error + bool" where
  "pivot_low_loop lows index current [] = Inr True"
| "pivot_low_loop lows index current (i # rest) =
     (if i \<noteq> index then
        (case iloc lows i of
           Inl e \<Rightarrow> Inl e
         | Inr v \<Rightarrow> if v \<le> current then Inr False
                    else pivot_low_loop lows index current rest)
      else pivot_low_loop lows index current rest)"

definition find_pivot_low :: "real list \<Rightarrow> int \<Rightarrow> int \<Rightarrow> py_error + bool" where
  "find_pivot_low lows index lookback =
     (if index < lookback \<or> index \<ge> int (length lows) - lookback then Inr False
      else case iloc lows index of
             Inl e \<Rightarrow> Inl e
           | Inr current \<Rightarrow>
               pivot_low_loop lows index current [index - lookback .. index + lookback])"

section \<open>indicator\_calculator.py: RSI\<close>

text \<open>
  \<open>close_prices.diff()\<close>: the first entry is undefined, every other one is the step
  from the previous close.
\<close>

definition diff :: "real list \<Rightarrow> fval list" where
  "diff xs = map (\<lambda>i. if i = 0 then NaN else Fin (xs ! i - xs ! (i - 1))) [0..<length xs]"

text \<open>
  \<open>delta.where(delta > 0, 0)\<close> and \<open>delta.where(delta < 0, 0)\<close>: an entry is kept
  where the condition holds and replaced by 0 elsewhere, also where it is undefined.
\<close>

definition where_gt0 :: "fval list \<Rightarrow> fval list" where
  "where_gt0 delta = map (\<lambda>d. if fgt d (Fin 0) then d else Fin 0) delta"

definition where_lt0 :: "fval list \<Rightarrow> fval list" where
  "where_lt0 delta = map (\<lambda>d. if flt d (Fin 0) then d else Fin 0) delta"

fun fsum :: "fval list \<Rightarrow> fval" where
  "fsum [] = Fin 0"
| "fsum (x # xs) = fadd x (fsum xs)"

text \<open>
  \<open>series.rolling(window).mean()\<close> with the default \<open>min_periods = window\<close>: undefined
  until a full window has been seen and wherever the window holds an undefined entry,
  the unweighted mean of the last \<open>window\<close> entries otherwise.
\<close>

definition rolling_mean :: "nat \<Rightarrow> fval list \<Rightarrow> fval list" where
  "rolling_mean window xs =
     map (\<lambda>i. if window = 0 \<or> i + 1 < window then NaN
               else fdiv (fsum (take window (drop (i + 1 - window) xs))) (Fin (real window)))
         [0..<length xs]"

text \<open>\<open>loss.replace(0, np.nan)\<close>\<close>

definition replace_zero_nan :: "fval list \<Rightarrow> fval list" where
  "replace_zero_nan xs = map (\<lambda>v. if feq v (Fin 0) then NaN else v) xs"

definition calculate_rsi :: "real list \<Rightarrow> nat \<Rightarrow> fval list" where
  "calculate_rsi close_prices period =
     (let delta = diff close_prices;
          gain = rolling_mean period (where_gt0 delta);
          loss = rolling_mean period (map fneg (where_lt0 delta));
          rs = map2 fdiv gain (replace_zero_nan loss);
          rsi = map (\<lambda>r. fsub (Fin 100) (fdiv (Fin 100) (fadd (Fin 1) r))) rs
      in rsi)"

text \<open>
  The RSI as the specification words it: the gain and the loss magnitude of step \<open>k\<close>
  (step 0 has none and counts as 0), their unweighted means over the trailing
  \<open>period\<close> steps, and \<open>100 - 100 / (1 + avg_gain / avg_loss)\<close>, undefined where the
  average loss is zero.
\<close>

definition step_gain :: "real list \<Rightarrow> nat \<Rightarrow> real" where
  "step_gain c k = (if k = 0 then 0 else max (c ! k - c ! (k - 1)) 0)"

definition step_loss :: "real list \<Rightarrow> nat \<Rightarrow> real" where
  "step_loss c k = (if k = 0 then 0 else max (c ! (k - 1) - c ! k) 0)"

definition avg_gain :: "real list \<Rightarrow> nat \<Rightarrow> nat \<Rightarrow> real" where
  "avg_gain c period i = sum_list (map (step_gain c) [i + 1 - period ..< i + 1]) / real period"

definition avg_loss :: "real list \<Rightarrow> nat \<Rightarrow> nat \<Rightarrow> real" where
  "avg_loss c period i = sum_list (map (step_loss c) [i + 1 - period ..< i + 1]) / real period"

definition rsi_spec :: "real list \<Rightarrow> nat \<Rightarrow> nat \<Rightarrow> fval" where
  "rsi_spec c period i =
     (if period = 0 \<or> i + 1 < period then NaN
      else if avg_loss c period i = 0 then NaN
      else Fin (100 - 100 / (1 + avg_gain c period i / avg_loss c period i)))"

section \<open>config.py\<close>

record config =
  MIN_CANDLES_REQUIRED :: int
  RISK_PER_TRADE :: real
  MIN_CONFIDENCE :: real
  PIVOT_LOOKBACK :: int
  MAX_LOOKBACK_BARS :: int
  STOP_MULTIPLIER :: real
  TARGET_1_RR :: real
  TARGET_2_RR :: real
  TARGET_3_RR :: real

definition CONFIG :: config where
  "CONFIG = \<lparr> MIN_CANDLES_REQUIRED = 30, RISK_PER_TRADE = 0.10, MIN_CONFIDENCE = 0.40,
               PIVOT_LOOKBACK = 3, MAX_LOOKBACK_BARS = 50, STOP_MULTIPLIER = 1.5,
               TARGET_1_RR = 1.5, TARGET_2_RR = 2.5, TARGET_3_RR = 3.5 \<rparr>"

section \<open>signal\_detector.py\<close>

text \<open>
  One row of the data frame handed to the detector: the index (the candle's
  timestamp), the price columns and the indicator columns it reads.
\<close>

record row =
  d_time :: int
  d_high :: real
  d_low :: real
  d_close :: real
  d_rsi :: fval
  d_atr :: fval
  d_ema20 :: fval
  d_ema50 :: fval
  d_ema100 :: fval

subsection \<open>calculate\_confidence\<close>

text \<open>The blocks of the score, in the order of the source.\<close>

definition tcs_score :: "fval \<Rightarrow> fval \<Rightarrow> fval \<Rightarrow> real" where
  "tcs_score ema20 ema50 ema100 =
     (if (fgt ema20 ema50 \<and> fgt ema50 ema100) \<or> (flt ema20 ema50 \<and> flt ema50 ema100)
      then 0.4 else 0.0)"

definition exhaustion_score :: "fval \<Rightarrow> fval \<Rightarrow> real" where
  "exhaustion_score rsi distance =
     (if fgt rsi (Fin 75) \<or> flt rsi (Fin 25) then 0.4
      else if fgt rsi (Fin 70) \<or> flt rsi (Fin 30) then 0.25
      else 0.0)
     + (if fgt distance (Fin 2.5) then 0.3
        else if fgt distance (Fin 1.5) then 0.2
        else 0.0)"

definition rsi_bonus :: "fval \<Rightarrow> bool \<Rightarrow> real" where
  "rsi_bonus rsi is_bullish =
     (if is_bullish \<and> flt rsi (Fin 30) then 0.25
      else if is_bullish \<and> flt rsi (Fin 35) then 0.20
      else if \<not> is_bullish \<and> fgt rsi (Fin 70) then 0.25
      else if \<not> is_bullish \<and> fgt rsi (Fin 65) then 0.20
      else 0.0)"

definition pullback_bonus :: "fval \<Rightarrow> real" where
  "pullback_bonus distance =
     (if flt (Fin 0.3) distance \<and> flt distance (Fin 2.0) then 0.10 else 0.0)"

definition dma_bonus :: "fval \<Rightarrow> bool \<Rightarrow> real" where
  "dma_bonus dma is_bullish =
     (if is_bullish \<and> flt dma (Fin 0) then 0.10
      else if \<not> is_bullish \<and> fgt dma (Fin 0) then 0.10
      else 0.0)"

text \<open>
  The body of the \<open>try\<close> block once the six values have been read at \<open>index\<close>.
\<close>

definition confidence_of :: "row \<Rightarrow> bool \<Rightarrow> real" where
  "confidence_of r is_bullish =
     (let rsi = d_rsi r; close = d_close r; ema20 = d_ema20 r; ema50 = d_ema50 r;
          ema100 = d_ema100 r; atr = d_atr r
      in if isna rsi \<or> isna atr \<or> feq atr (Fin 0) then 0.0
         else
           let tcs = tcs_score ema20 ema50 ema100;
               distance = fdiv (fabs (fsub (Fin close) ema20)) atr;
               exhaustion = exhaustion_score rsi distance;
               dma = fdiv (fsub ema20 ema50) atr;
               confidence = 0.0 + 0.25 * (1 - tcs) + 0.30 * exhaustion
                              + rsi_bonus rsi is_bullish + pullback_bonus distance
                              + dma_bonus dma is_bullish
           in min confidence 1.0)"

text \<open>
  All columns of a data frame have the same length, so the six reads at \<open>index\<close>
  succeed or raise together; an exception is caught and the score is 0.0.
\<close>

definition calculate_confidence :: "row list \<Rightarrow> int \<Rightarrow> bool \<Rightarrow> real" where
  "calculate_confidence df index is_bullish =
     (case iloc df index of
        Inl e \<Rightarrow> 0.0
      | Inr r \<Rightarrow> confidence_of r is_bullish)"

subsection \<open>detect\_signal\<close>

datatype pivot_type = High | Low

record pivot =
  p_index :: int
  p_type :: pivot_type
  p_price :: real
  p_rsi :: fval
  p_time :: int

datatype signal_type = BULLISH | BEARISH

record signal =
  s_type :: signal_type
  s_time :: int
  s_price :: real
  s_rsi :: fval
  s_confidence :: real
  s_atr :: fval
  s_bars_between :: int

record detector =
  recent_pivots :: "pivot list"
  last_signal_time :: "int option"

definition signal_cooldown_bars :: int where
  "signal_cooldown_bars = 10"

text \<open>The detector as \<open>__init__\<close> leaves it.\<close>

definition new_detector :: detector where
  "new_detector = \<lparr> recent_pivots = [], last_signal_time = None \<rparr>"

text \<open>
  The cooldown check. \<open>if self.last_signal_time:\<close> is false for \<open>None\<close> and for 0.
\<close>

definition in_cooldown :: "detector \<Rightarrow> row list \<Rightarrow> bool" where
  "in_cooldown st df =
     (case last_signal_time st of
        None \<Rightarrow> False
      | Some t \<Rightarrow> t \<noteq> 0 \<and> int (length df) - t < signal_cooldown_bars)"

definition bullish_pattern :: "pivot \<Rightarrow> pivot \<Rightarrow> bool" where
  "bullish_pattern pivot prev_pivot =
     (p_type pivot = Low \<and> p_price pivot < p_price prev_pivot \<and>
      fgt (p_rsi pivot) (p_rsi prev_pivot) \<and> flt (p_rsi pivot) (Fin 40))"

definition bearish_pattern :: "pivot \<Rightarrow> pivot \<Rightarrow> bool" where
  "bearish_pattern pivot prev_pivot =
     (p_type pivot = High \<and> p_price pivot > p_price prev_pivot \<and>
      flt (p_rsi pivot) (p_rsi prev_pivot) \<and> fgt (p_rsi pivot) (Fin 60))"

text \<open>
  The loop \<open>for prev_pivot in reversed(self.recent_pivots[:-1])\<close>, over the pivots
  still to visit. \<open>atr\<close> is \<open>df['atr'].iloc[check_index]\<close>. A pivot that fails the
  pattern test, or passes it with too low a confidence, falls through to the next
  iteration.
\<close>

fun divergence_loop ::
  "config \<Rightarrow> row list \<Rightarrow> int \<Rightarrow> fval \<Rightarrow> pivot \<Rightarrow> detector \<Rightarrow> pivot list
     \<Rightarrow> signal option \<times> detector" where
  "divergence_loop cfg df check_index atr pivot st [] = (None, st)"
| "divergence_loop cfg df check_index atr pivot st (prev_pivot # rest) =
     (if p_type prev_pivot \<noteq> p_type pivot
      then divergence_loop cfg df check_index atr pivot st rest
      else
        let bars_between = p_index pivot - p_index prev_pivot in
        if bars_between < 8
        then divergence_loop cfg df check_index atr pivot st rest
        else if bullish_pattern pivot prev_pivot then
          (let confidence = calculate_confidence df check_index True in
           if confidence \<ge> MIN_CONFIDENCE cfg
           then (Some \<lparr> s_type = BULLISH, s_time = p_time pivot, s_price = p_price pivot,
                        s_rsi = p_rsi pivot, s_confidence = confidence, s_atr = atr,
                        s_bars_between = bars_between \<rparr>,
                 st\<lparr> last_signal_time := Some check_index \<rparr>)
           else divergence_loop cfg df check_index atr pivot st rest)
        else if bearish_pattern pivot prev_pivot then
          (let confidence = calculate_confidence df check_index False in
           if confidence \<ge> MIN_CONFIDENCE cfg
           then (Some \<lparr> s_type = BEARISH, s_time = p_time pivot, s_price = p_price pivot,
                        s_rsi = p_rsi pivot, s_confidence = confidence, s_atr = atr,
                        s_bars_between = bars_between \<rparr>,
                 st\<lparr> last_signal_time := Some check_index \<rparr>)
           else divergence_loop cfg df check_index atr pivot st rest)
        else divergence_loop cfg df check_index atr pivot st rest)"

text \<open>
  \<open>detect_signal\<close> returns the signal (or \<open>None\<close>) and the detector as the call leaves
  it. An IndexError leaves the method before anything is stored.
\<close>

definition detect_signal ::
  "config \<Rightarrow> detector \<Rightarrow> row list \<Rightarrow> py_error + (signal option \<times> detector)" where
  "detect_signal cfg st df =
     (if int (length df) < 100 then Inr (None, st)
      else if in_cooldown st df then Inr (None, st)
      else
        let lookback = PIVOT_LOOKBACK cfg;
            check_index = int (length df) - lookback - 1
        in if check_index < lookback then Inr (None, st)
           else
             case find_pivot_high (map d_high df) check_index lookback of
               Inl e \<Rightarrow> Inl e
             | Inr is_pivot_high \<Rightarrow>
             case find_pivot_low (map d_low df) check_index lookback of
               Inl e \<Rightarrow> Inl e
             | Inr is_pivot_low \<Rightarrow>
             if \<not> is_pivot_high \<and> \<not> is_pivot_low then Inr (None, st)
             else
               case iloc df check_index of
                 Inl e \<Rightarrow> Inl e
               | Inr r \<Rightarrow>
                 let pivot = \<lparr> p_index = check_index,
                               p_type = (if is_pivot_high then High else Low),
                               p_price = (if is_pivot_high then d_high r else d_low r),
                               p_rsi = d_rsi r,
                               p_time = d_time r \<rparr>;
                     max_lookback = MAX_LOOKBACK_BARS cfg;
                     pivots = filter (\<lambda>p. check_index - p_index p \<le> max_lookback)
                                (recent_pivots st @ [pivot]);
                     st' = st\<lparr> recent_pivots := pivots \<rparr>
                 in Inr (divergence_loop cfg df check_index (d_atr r) pivot st'
                           (rev (butlast pivots))))"

section \<open>Rounding\<close>

text \<open>
  \<open>round(x, 6)\<close>: to the nearest multiple of \<open>10^-6\<close>, a tie to the even one.
\<close>

definition round_half_even :: "real \<Rightarrow> int" where
  "round_half_even x =
     (let f = \<lfloor>x\<rfloor>; d = x - of_int f
      in if d < 1 / 2 then f
         else if d > 1 / 2 then f + 1
         else if even f then f else f + 1)"

definition round6 :: "real \<Rightarrow> real" where
  "round6 x = of_int (round_half_even (x * 1000000)) / 1000000"

section \<open>live\_data\_collector.py\<close>

text \<open>
  Timestamps are integers (microseconds); \<open>timedelta(minutes=5)\<close> is the interval.
\<close>

record tick =
  t_timestamp :: int
  t_open :: real
  t_high :: real
  t_low :: real
  t_close :: real
  t_volume :: real

record working_candle =
  w_timestamp :: int
  w_open :: real
  w_high :: real
  w_low :: real
  w_close :: real
  w_volume :: real
  bars_in_candle :: int

record candle =
  c_timestamp :: int
  c_open :: real
  c_high :: real
  c_low :: real
  c_close :: real
  c_volume :: real

record collector =
  candles :: "candle list"
  current_candle :: "working_candle option"
  candle_start :: "int option"
  latest_price :: "real option"
  latest_bar_data :: "tick option"

definition interval :: int where
  "interval = 5 * 60 * 1000000"

text \<open>The collector as \<open>__init__\<close> leaves it.\<close>

definition new_collector :: collector where
  "new_collector = \<lparr> candles = [], current_candle = None, candle_start = None,
                      latest_price = None, latest_bar_data = None \<rparr>"

text \<open>The dictionary built from \<open>latest_bar_data\<close> when a candle is started.\<close>

definition start_candle :: "tick \<Rightarrow> working_candle" where
  "start_candle b = \<lparr> w_timestamp = t_timestamp b, w_open = t_open b, w_high = t_high b,
                      w_low = t_low b, w_close = t_close b, w_volume = t_volume b,
                      bars_in_candle = 1 \<rparr>"

text \<open>The five updates of the \<open>else\<close> branch.\<close>

definition update_candle :: "working_candle \<Rightarrow> tick \<Rightarrow> working_candle" where
  "update_candle cur b =
     cur\<lparr> w_high := max (w_high cur) (t_high b),
          w_low := min (w_low cur) (t_low b),
          w_close := t_close b,
          w_volume := w_volume cur + t_volume b,
          bars_in_candle := bars_in_candle cur + 1 \<rparr>"

text \<open>
  \<open>process_minute_bar\<close>. Without \<open>latest_bar_data\<close> the first read raises and the
  handler leaves the collector as it was. Without \<open>candle_start\<close> the subtraction
  raises after the working candle has been updated.
\<close>

definition process_minute_bar :: "collector \<Rightarrow> collector" where
  "process_minute_bar s =
     (case latest_bar_data s of
        None \<Rightarrow> s
      | Some b \<Rightarrow>
          (case current_candle s of
             None \<Rightarrow> s\<lparr> current_candle := Some (start_candle b),
                        candle_start := Some (t_timestamp b) \<rparr>
           | Some cur \<Rightarrow>
               let cur' = update_candle cur b;
                   s1 = s\<lparr> current_candle := Some cur' \<rparr>
               in (case candle_start s of
                     None \<Rightarrow> s1
                   | Some start \<Rightarrow>
                       let time_diff = t_timestamp b - start in
                       if time_diff \<ge> interval \<or> bars_in_candle cur' \<ge> 5 then
                         let candle_to_save =
                               \<lparr> c_timestamp = start, c_open = w_open cur',
                                 c_high = w_high cur', c_low = w_low cur',
                                 c_close = w_close cur',
                                 c_volume = round6 (w_volume cur') \<rparr>
                         in s1\<lparr> candles := candles s1 @ [candle_to_save],
                                current_candle := Some (start_candle b),
                                candle_start := Some (t_timestamp b) \<rparr>
                       else s1)))"

definition on_bar :: "collector \<Rightarrow> tick \<Rightarrow> collector" where
  "on_bar s bar =
     process_minute_bar (s\<lparr> latest_price := Some (t_close bar),
                            latest_bar_data := Some bar \<rparr>)"


section \<open>live\_trader.py: calculate\_order\_details\<close>

record order_plan =
  side :: string
  qty :: real
  entry :: real
  stop :: real
  target_1 :: real
  target_2 :: real
  target_3 :: real
  stop_distance :: real
  risk_dollars :: real
  potential_profit_t1 :: real
  potential_profit_t2 :: real
  potential_profit_t3 :: real
  account_balance :: real
  atr :: real
  stop_multiplier :: real
  is_bullish :: bool


section \<open>The tie-break of the scan, stated on its own\<close>

text \<open>
  A prior pivot is eligible for the candidate when it has the candidate's type and lies
  at least 8 bars before it. It passes when it is eligible, the bullish or the bearish
  pattern test holds against it, and the confidence of the candidate (the same for
  every prior pivot) reaches the configured minimum. \<open>candidate_pivot\<close> is the pivot
  that a call stores: the high flag is looked at first.
\<close>

definition eligible :: "pivot \<Rightarrow> pivot \<Rightarrow> bool" where
  "eligible pivot prev_pivot =
     (p_type prev_pivot = p_type pivot \<and> p_index pivot - p_index prev_pivot \<ge> 8)"

definition passes :: "config \<Rightarrow> row list \<Rightarrow> pivot \<Rightarrow> pivot \<Rightarrow> bool" where
  "passes cfg df pivot prev_pivot =
     (eligible pivot prev_pivot \<and>
      (bullish_pattern pivot prev_pivot \<or> bearish_pattern pivot prev_pivot) \<and>
      calculate_confidence df (p_index pivot) (p_type pivot = Low) \<ge> MIN_CONFIDENCE cfg)"

definition candidate_pivot :: "config \<Rightarrow> row list \<Rightarrow> pivot option" where
  "candidate_pivot cfg df =
     (let L = PIVOT_LOOKBACK cfg; ci = int (length df) - L - 1; r = df ! nat ci
      in if find_pivot_high (map d_high df) ci L = Inr True
         then Some \<lparr> p_index = ci, p_type = High, p_price = d_high r, p_rsi = d_rsi r,
                      p_time = d_time r \<rparr>
         else if find_pivot_low (map d_low df) ci L = Inr True
         then Some \<lparr> p_index = ci, p_type = Low, p_price = d_low r, p_rsi = d_rsi r,
                      p_time = d_time r \<rparr>
         else None)"

section \<open>Example data\<close>

text \<open>
  A quiet series with a few dips: every bar has the same high, so no bar is a pivot
  high, and a dip is a pivot low. A dip row scores a bullish confidence of 0.51.
\<close>

definition flat_row :: row where
  "flat_row = \<lparr> d_time = 0, d_high = 110, d_low = 105, d_close = 108, d_rsi = Fin 50,
                 d_atr = Fin 2, d_ema20 = Fin 108, d_ema50 = Fin 108, d_ema100 = Fin 108 \<rparr>"

definition dip_row :: "real \<Rightarrow> real \<Rightarrow> row" where
  "dip_row price r = flat_row\<lparr> d_low := price, d_close := 104, d_rsi := Fin r \<rparr>"

definition bar_a :: "nat \<Rightarrow> row" where
  "bar_a i = (if i = 96 then dip_row 100 25
              else if i = 104 then dip_row 95 30
              else if i = 110 then dip_row 90 32
              else flat_row)\<lparr> d_time := int i \<rparr>"

definition series_a :: "nat \<Rightarrow> row list" where
  "series_a n = map bar_a [0..<n]"

definition low_pivot :: "int \<Rightarrow> real \<Rightarrow> real \<Rightarrow> pivot" where
  "low_pivot i price r = \<lparr> p_index = i, p_type = Low, p_price = price, p_rsi = Fin r,
                            p_time = i \<rparr>"

definition bullish_signal :: "int \<Rightarrow> real \<Rightarrow> real \<Rightarrow> int \<Rightarrow> signal" where
  "bullish_signal i price r gap = \<lparr> s_type = BULLISH, s_time = i, s_price = price,
                                     s_rsi = Fin r, s_confidence = 0.51, s_atr = Fin 2,
                                     s_bars_between = gap \<rparr>"

definition detector_1 :: detector where
  "detector_1 = \<lparr> recent_pivots = [low_pivot 96 100 25], last_signal_time = None \<rparr>"

definition detector_a2 :: detector where
  "detector_a2 = \<lparr> recent_pivots = [low_pivot 96 100 25, low_pivot 104 95 30],
                    last_signal_time = Some 104 \<rparr>"

definition detector_a3 :: detector where
  "detector_a3 = \<lparr> recent_pivots = [low_pivot 96 100 25, low_pivot 104 95 30,
                                      low_pivot 110 90 32],
                    last_signal_time = Some 110 \<rparr>"

definition bar_b :: "nat \<Rightarrow> row" where
  "bar_b i = (if i = 96 then dip_row 100 25
              else if i = 104 then dip_row 90 20
              else if i = 112 then dip_row 95 32
              else flat_row)\<lparr> d_time := int i \<rparr>"

definition series_b :: "nat \<Rightarrow> row list" where
  "series_b n = map bar_b [0..<n]"

definition detector_b2 :: detector where
  "detector_b2 = \<lparr> recent_pivots = [low_pivot 96 100 25, low_pivot 104 90 20],
                    last_signal_time = None \<rparr>"

definition detector_b3 :: detector where
  "detector_b3 = \<lparr> recent_pivots = [low_pivot 96 100 25, low_pivot 104 90 20,
                                      low_pivot 112 95 32],
                    last_signal_time = Some 112 \<rparr>"


definition tick_a :: tick where
  "tick_a = \<lparr> t_timestamp = 0, t_open = 1, t_high = 3, t_low = 0, t_close = 2, t_volume = 5 \<rparr>"




section \<open>Pivot flags\<close>

lemma iloc_in_range: "0 \<le> i \<Longrightarrow> i < int (length xs) \<Longrightarrow> iloc xs i = Inr (xs ! nat i)"
  by (simp add: iloc_def)

lemma pivot_high_loop_char:
  "(\<And>j. j \<in> set js \<Longrightarrow> 0 \<le> j \<and> j < int (length highs)) \<Longrightarrow>
   pivot_high_loop highs index current js
     = Inr (\<forall>j\<in>set js. j \<noteq> index \<longrightarrow> highs ! nat j < current)"
proof (induction js)
  case Nil
  show ?case by simp
next
  case (Cons j js)
  have rng: "0 \<le> j" "j < int (length highs)"
    using Cons.prems [of j] by simp_all
  have ih: "pivot_high_loop highs index current js
              = Inr (\<forall>j\<in>set js. j \<noteq> index \<longrightarrow> highs ! nat j < current)"
    using Cons.IH Cons.prems by simp
  show ?case
    using rng ih by (auto simp: iloc_in_range)
qed

lemma pivot_low_loop_char:
  "(\<And>j. j \<in> set js \<Longrightarrow> 0 \<le> j \<and> j < int (length lows)) \<Longrightarrow>
   pivot_low_loop lows index current js
     = Inr (\<forall>j\<in>set js. j \<noteq> index \<longrightarrow> lows ! nat j > current)"
proof (induction js)
  case Nil
  show ?case by simp
next
  case (Cons j js)
  have rng: "0 \<le> j" "j < int (length lows)"
    using Cons.prems [of j] by simp_all
  have ih: "pivot_low_loop lows index current js
              = Inr (\<forall>j\<in>set js. j \<noteq> index \<longrightarrow> lows ! nat j > current)"
    using Cons.IH Cons.prems by simp
  show ?case
    using rng ih by (auto simp: iloc_in_range)
qed

lemma find_pivot_high_char:
  assumes "0 \<le> L"
  shows "find_pivot_high highs i L
           = Inr (L \<le> i \<and> i \<le> int (length highs) - L - 1 \<and>
                  (\<forall>j\<in>{i - L .. i + L}. j \<noteq> i \<longrightarrow> highs ! nat j < highs ! nat i))"
proof (cases "i < L \<or> i \<ge> int (length highs) - L")
  case True
  then show ?thesis by (auto simp: find_pivot_high_def)
next
  case False
  then have b: "L \<le> i" "i < int (length highs) - L" by simp_all
  have cur: "iloc highs i = Inr (highs ! nat i)"
    using b assms by (simp add: iloc_in_range)
  have "pivot_high_loop highs i (highs ! nat i) [i - L .. i + L]
          = Inr (\<forall>j\<in>set [i - L .. i + L]. j \<noteq> i \<longrightarrow> highs ! nat j < highs ! nat i)"
    using b by (intro pivot_high_loop_char) auto
  then show ?thesis
    using b False cur by (simp add: find_pivot_high_def)
qed

lemma find_pivot_low_char:
  assumes "0 \<le> L"
  shows "find_pivot_low lows i L
           = Inr (L \<le> i \<and> i \<le> int (length lows) - L - 1 \<and>
                  (\<forall>j\<in>{i - L .. i + L}. j \<noteq> i \<longrightarrow> lows ! nat j > lows ! nat i))"
proof (cases "i < L \<or> i \<ge> int (length lows) - L")
  case True
  then show ?thesis by (auto simp: find_pivot_low_def)
next
  case False
  then have b: "L \<le> i" "i < int (length lows) - L" by simp_all
  have cur: "iloc lows i = Inr (lows ! nat i)"
    using b assms by (simp add: iloc_in_range)
  have "pivot_low_loop lows i (lows ! nat i) [i - L .. i + L]
          = Inr (\<forall>j\<in>set [i - L .. i + L]. j \<noteq> i \<longrightarrow> lows ! nat j > lows ! nat i)"
    using b by (intro pivot_low_loop_char) auto
  then show ?thesis
    using b False cur by (simp add: find_pivot_low_def)
qed

text \<open>
  C7. For a half-window \<open>L \<ge> 0\<close>, \<open>find_pivot_high highs i L\<close> returns true exactly when
  \<open>L \<le> i \<le> len(highs) - L - 1\<close> and every other position \<open>j\<close> of \<open>[i - L, i + L]\<close> has
  \<open>highs[j] < highs[i]\<close> strictly; \<open>find_pivot_low\<close> likewise with \<open>lows[j] > lows[i]\<close>.
  Neither raises, and neither is true within \<open>L\<close> of an end of the series.
\<close>

theorem pivot_flags_iff:
  assumes "0 \<le> L"
  shows "find_pivot_high xs i L
           = Inr (L \<le> i \<and> i \<le> int (length xs) - L - 1 \<and>
                  (\<forall>j\<in>{i - L .. i + L}. j \<noteq> i \<longrightarrow> xs ! nat j < xs ! nat i))
       \<and> find_pivot_low xs i L
           = Inr (L \<le> i \<and> i \<le> int (length xs) - L - 1 \<and>
                  (\<forall>j\<in>{i - L .. i + L}. j \<noteq> i \<longrightarrow> xs ! nat j > xs ! nat i))
       \<and> ((i < L \<or> i > int (length xs) - L - 1) \<longrightarrow>
            find_pivot_high xs i L = Inr False \<and> find_pivot_low xs i L = Inr False)"
  using find_pivot_high_char [OF assms, of xs i] find_pivot_low_char [OF assms, of xs i]
  by auto

theorem pivot_flags_iff_witness:
  "(0::int) \<le> 1 \<and> find_pivot_high [1, 3, 1] 1 1 = Inr True \<and> find_pivot_low [1, 3, 1] 1 1 = Inr False
    \<and> find_pivot_high [1, 3, 1] 0 1 = Inr False"
  using pivot_flags_iff [of 1 "[1, 3, 1]" 1] pivot_flags_iff [of 1 "[1, 3, 1]" 0]
  by (simp add: find_pivot_high_def find_pivot_low_def iloc_def upto.simps)

text \<open>
  C9 as stated: a pivot high at position \<open>i\<close> of a series would be a pivot low at the
  same position \<open>i\<close> of the reversed, negated series. It fails: position 1 of
  \<open>[1, 3, 1, 0, 0]\<close> is a pivot high, and position 1 of the reversed, negated series
  \<open>[0, 0, -1, -3, -1]\<close> is not a pivot low.
\<close>

theorem pivot_duality_counterexample:
  "find_pivot_high [1, 3, 1, 0, 0] 1 1 = Inr True
   \<and> find_pivot_low (rev (map uminus [1, 3, 1, 0, 0])) 1 1 = Inr False"
  by (simp add: find_pivot_high_def find_pivot_low_def iloc_def upto.simps)

text \<open>
  C9, amended. Reversing a series moves position \<open>i\<close> to \<open>len - 1 - i\<close>: for a
  half-window \<open>L \<ge> 0\<close>, \<open>find_pivot_high\<close> at position \<open>i\<close> of a series agrees with
  \<open>find_pivot_low\<close> at the mirrored position \<open>len - 1 - i\<close> of the reversed, negated
  series.
\<close>

theorem pivot_duality_mirrored:
  assumes "0 \<le> L"
  shows "find_pivot_high xs i L
           = find_pivot_low (rev (map uminus xs)) (int (length xs) - 1 - i) L"
proof -
  let ?n = "int (length xs)"
  let ?ys = "rev (map uminus xs)"
  let ?i' = "?n - 1 - i"
  have len: "int (length ?ys) = ?n" by simp
  show ?thesis
  proof (cases "L \<le> i \<and> i \<le> ?n - L - 1")
    case False
    then show ?thesis
      unfolding find_pivot_high_char [OF assms] find_pivot_low_char [OF assms] len
      by auto
  next
    case True
    have nth: "?ys ! nat j = - (xs ! nat (?n - 1 - j))" if "0 \<le> j" "j < ?n" for j
    proof -
      have "nat j < length (map uminus xs)" using that by simp
      then have "?ys ! nat j = map uminus xs ! (length (map uminus xs) - Suc (nat j))"
        by (rule rev_nth)
      also have "length (map uminus xs) - Suc (nat j) = nat (?n - 1 - j)"
        using that by simp
      also have "map uminus xs ! nat (?n - 1 - j) = - (xs ! nat (?n - 1 - j))"
        using that by simp
      finally show ?thesis .
    qed
    have win: "(\<forall>j\<in>{?i' - L .. ?i' + L}. j \<noteq> ?i' \<longrightarrow> ?ys ! nat j > ?ys ! nat ?i')
                 \<longleftrightarrow> (\<forall>j\<in>{i - L .. i + L}. j \<noteq> i \<longrightarrow> xs ! nat j < xs ! nat i)"
      (is "?A \<longleftrightarrow> ?B")
    proof
      assume a: ?A
      show ?B
      proof (intro ballI impI)
        fix j assume j: "j \<in> {i - L .. i + L}" "j \<noteq> i"
        let ?j' = "?n - 1 - j"
        have "?j' \<in> {?i' - L .. ?i' + L}" "?j' \<noteq> ?i'" using j by auto
        with a have "?ys ! nat ?j' > ?ys ! nat ?i'" by blast
        moreover have "?ys ! nat ?j' = - (xs ! nat j)"
          using nth [of ?j'] j True by simp
        moreover have "?ys ! nat ?i' = - (xs ! nat i)"
          using nth [of ?i'] True assms by simp
        ultimately show "xs ! nat j < xs ! nat i" by simp
      qed
    next
      assume b: ?B
      show ?A
      proof (intro ballI impI)
        fix j assume j: "j \<in> {?i' - L .. ?i' + L}" "j \<noteq> ?i'"
        let ?k = "?n - 1 - j"
        have "?k \<in> {i - L .. i + L}" "?k \<noteq> i" using j by auto
        with b have "xs ! nat ?k < xs ! nat i" by blast
        moreover have "?ys ! nat j = - (xs ! nat ?k)"
          using nth [of j] j True by simp
        moreover have "?ys ! nat ?i' = - (xs ! nat i)"
          using nth [of ?i'] True assms by simp
        ultimately show "?ys ! nat j > ?ys ! nat ?i'" by simp
      qed
    qed
    show ?thesis
      unfolding find_pivot_high_char [OF assms] find_pivot_low_char [OF assms] len
      using True win by auto
  qed
qed

theorem pivot_duality_mirrored_witness:
  "(0::int) \<le> 1 \<and> find_pivot_high [1, 3, 1, 0, 0] 1 1 = Inr True
    \<and> find_pivot_low (rev (map uminus [1, 3, 1, 0, 0])) 3 1 = Inr True"
  using pivot_duality_mirrored [of 1 "[1, 3, 1, 0, 0]" 1]
  by (simp add: find_pivot_high_def iloc_def upto.simps)

section \<open>RSI\<close>

lemma length_rolling_mean: "length (rolling_mean w xs) = length xs"
  by (simp add: rolling_mean_def)

lemma length_diff: "length (diff c) = length c"
  by (simp add: diff_def)

lemma gain_series: "where_gt0 (diff c) = map (\<lambda>k. Fin (step_gain c k)) [0..<length c]"
  by (auto simp: where_gt0_def diff_def step_gain_def max_def)

lemma loss_series:
  "map fneg (where_lt0 (diff c)) = map (\<lambda>k. Fin (step_loss c k)) [0..<length c]"
  by (auto simp: where_lt0_def diff_def step_loss_def max_def)

lemma fsum_Fin: "fsum (map (\<lambda>k. Fin (g k)) ks) = Fin (sum_list (map g ks))"
  by (induction ks) simp_all

lemma window_upt:
  assumes "w \<le> i + 1" and "i < n"
  shows "take w (drop (i + 1 - w) (map f [0..<n])) = map f [i + 1 - w ..< i + 1]"
proof -
  have "drop (i + 1 - w) (map f [0..<n]) = map f [i + 1 - w ..< n]"
    by (simp add: drop_map)
  moreover have "take w [i + 1 - w ..< n] = [i + 1 - w ..< i + 1 - w + w]"
    using assms by (intro take_upt) simp
  ultimately show ?thesis using assms by (simp add: take_map)
qed

lemma rolling_mean_nth:
  assumes "i < n"
  shows "rolling_mean w (map (\<lambda>k. Fin (g k)) [0..<n]) ! i
           = (if w = 0 \<or> i + 1 < w then NaN
              else Fin (sum_list (map g [i + 1 - w ..< i + 1]) / real w))"
proof (cases "w = 0 \<or> i + 1 < w")
  case True
  then show ?thesis using assms by (auto simp: rolling_mean_def)
next
  case False
  then have w: "w \<le> i + 1" "w \<noteq> 0" by simp_all
  have "take w (drop (i + 1 - w) (map (\<lambda>k. Fin (g k)) [0..<n]))
          = map (\<lambda>k. Fin (g k)) [i + 1 - w ..< i + 1]"
    using window_upt [OF w(1) assms] .
  then show ?thesis
    using assms False w by (simp add: rolling_mean_def fsum_Fin)
qed

lemma step_gain_nonneg: "0 \<le> step_gain c k"
  by (simp add: step_gain_def)

lemma step_loss_nonneg: "0 \<le> step_loss c k"
  by (simp add: step_loss_def)

lemma avg_gain_nonneg: "0 \<le> avg_gain c p i"
  unfolding avg_gain_def
  by (intro divide_nonneg_nonneg sum_list_nonneg) (auto simp: step_gain_nonneg)

lemma avg_loss_nonneg: "0 \<le> avg_loss c p i"
  unfolding avg_loss_def
  by (intro divide_nonneg_nonneg sum_list_nonneg) (auto simp: step_loss_nonneg)

lemma calculate_rsi_nth:
  assumes "i < length c"
  shows "calculate_rsi c p ! i = rsi_spec c p i"
proof -
  let ?gain = "rolling_mean p (where_gt0 (diff c))"
  let ?loss = "rolling_mean p (map fneg (where_lt0 (diff c)))"
  have lg: "length ?gain = length c" by (simp add: length_rolling_mean where_gt0_def length_diff)
  have ll: "length ?loss = length c" by (simp add: length_rolling_mean where_lt0_def length_diff)
  have g: "?gain ! i = (if p = 0 \<or> i + 1 < p then NaN else Fin (avg_gain c p i))"
    unfolding gain_series avg_gain_def using rolling_mean_nth [OF assms] .
  have l: "?loss ! i = (if p = 0 \<or> i + 1 < p then NaN else Fin (avg_loss c p i))"
    unfolding loss_series avg_loss_def using rolling_mean_nth [OF assms] .
  have nth: "calculate_rsi c p ! i
               = fsub (Fin 100) (fdiv (Fin 100) (fadd (Fin 1)
                   (fdiv (?gain ! i) (if feq (?loss ! i) (Fin 0) then NaN else ?loss ! i))))"
    using assms lg ll by (simp add: calculate_rsi_def Let_def replace_zero_nan_def)
  show ?thesis
  proof (cases "p = 0 \<or> i + 1 < p")
    case True
    then show ?thesis unfolding nth g l by (simp add: rsi_spec_def)
  next
    case False
    show ?thesis
    proof (cases "avg_loss c p i = 0")
      case True
      then show ?thesis unfolding nth g l using False by (simp add: rsi_spec_def)
    next
      case nz: False
      have "0 < avg_loss c p i" using nz avg_loss_nonneg [of c p i] by simp
      then have "0 \<le> avg_gain c p i / avg_loss c p i"
        using avg_gain_nonneg [of c p i] by simp
      then have "1 + avg_gain c p i / avg_loss c p i \<noteq> 0" by linarith
      then show ?thesis unfolding nth g l using False nz by (simp add: rsi_spec_def)
    qed
  qed
qed

text \<open>
  What \<open>loss.replace(0, np.nan)\<close> is there for: with gains and no losses in the window
  the plain quotient is an infinity, and the formula applied to it gives 100. The
  replacement turns the zero into \<open>NaN\<close> before the division.
\<close>

lemma quotient_over_zero_loss:
  "0 < g \<Longrightarrow> fdiv (Fin g) (Fin 0) = PInf
     \<and> fsub (Fin 100) (fdiv (Fin 100) (fadd (Fin 1) (fdiv (Fin g) (Fin 0)))) = Fin 100"
  by simp

lemma quotient_over_replaced_loss:
  "fsub (Fin 100) (fdiv (Fin 100) (fadd (Fin 1)
     (fdiv (Fin g) (if feq (Fin 0) (Fin 0) then NaN else Fin 0)))) = NaN"
  by simp

text \<open>
  C8. At every position \<open>i\<close> of the series, \<open>calculate_rsi\<close> is
  \<open>100 - 100 / (1 + avg_gain / avg_loss)\<close> with the unweighted means of the gains and
  of the loss magnitudes over the trailing \<open>period\<close> steps; it is undefined until a
  full window has been seen and wherever the average loss is zero, where it is not
  replaced by 100.
\<close>

theorem rsi_simple_means:
  assumes "i < length c"
  shows "calculate_rsi c p ! i
           = (if p = 0 \<or> i + 1 < p then NaN
              else if avg_loss c p i = 0 then NaN
              else Fin (100 - 100 / (1 + avg_gain c p i / avg_loss c p i)))
       \<and> (avg_loss c p i = 0 \<longrightarrow> calculate_rsi c p ! i = NaN)
       \<and> length (calculate_rsi c p) = length c"
proof -
  have "length (calculate_rsi c p) = length c"
    by (simp add: calculate_rsi_def Let_def replace_zero_nan_def length_rolling_mean
          where_gt0_def where_lt0_def length_diff)
  then show ?thesis
    using calculate_rsi_nth [OF assms, of p] by (simp add: rsi_spec_def)
qed

theorem rsi_simple_means_witness:
  "(3::nat) < length [1, 3, 2, 4::real]
   \<and> calculate_rsi [1, 3, 2, 4] 2 ! 3 = Fin (200 / 3)
   \<and> avg_gain [1, 2, 3, 4] 2 3 = 1
   \<and> avg_loss [1, 2, 3, 4] 2 3 = 0
   \<and> fdiv (Fin (avg_gain [1, 2, 3, 4] 2 3)) (Fin (avg_loss [1, 2, 3, 4] 2 3)) = PInf
   \<and> calculate_rsi [1, 2, 3, 4] 2 ! 3 = NaN"
  using rsi_simple_means [of 3 "[1, 3, 2, 4]" 2] rsi_simple_means [of 3 "[1, 2, 3, 4]" 2]
  by (simp add: avg_loss_def avg_gain_def step_loss_def step_gain_def upt_rec numeral_eq_Suc)

section \<open>Confidence\<close>

lemma tcs_score_bounds: "0 \<le> tcs_score a b c \<and> tcs_score a b c \<le> 0.4"
  by (simp add: tcs_score_def)

lemma exhaustion_score_nonneg: "0 \<le> exhaustion_score r d"
  by (simp add: exhaustion_score_def)

lemma rsi_bonus_nonneg: "0 \<le> rsi_bonus r b"
  by (simp add: rsi_bonus_def)

lemma pullback_bonus_nonneg: "0 \<le> pullback_bonus d"
  by (simp add: pullback_bonus_def)

lemma dma_bonus_nonneg: "0 \<le> dma_bonus d b"
  by (simp add: dma_bonus_def)

lemma confidence_of_bounds: "0 \<le> confidence_of r b \<and> confidence_of r b \<le> 1"
proof (cases "isna (d_rsi r) \<or> isna (d_atr r) \<or> feq (d_atr r) (Fin 0)")
  case True
  then show ?thesis by (simp add: confidence_of_def Let_def)
next
  case False
  let ?d = "fdiv (fabs (fsub (Fin (d_close r)) (d_ema20 r))) (d_atr r)"
  let ?c = "0.0 + 0.25 * (1 - tcs_score (d_ema20 r) (d_ema50 r) (d_ema100 r))
              + 0.30 * exhaustion_score (d_rsi r) ?d
              + rsi_bonus (d_rsi r) b + pullback_bonus ?d
              + dma_bonus (fdiv (fsub (d_ema20 r) (d_ema50 r)) (d_atr r)) b"
  have eq: "confidence_of r b = min ?c 1.0"
    using False by (simp add: confidence_of_def Let_def)
  have "0 \<le> 0.25 * (1 - tcs_score (d_ema20 r) (d_ema50 r) (d_ema100 r))"
    using tcs_score_bounds [of "d_ema20 r" "d_ema50 r" "d_ema100 r"] by simp
  moreover have "0 \<le> 0.30 * exhaustion_score (d_rsi r) ?d"
    using exhaustion_score_nonneg [of "d_rsi r" ?d] by simp
  ultimately have "0 \<le> ?c"
    using rsi_bonus_nonneg [of "d_rsi r" b] pullback_bonus_nonneg [of ?d]
      dma_bonus_nonneg [of "fdiv (fsub (d_ema20 r) (d_ema50 r)) (d_atr r)" b]
    by linarith
  then show ?thesis unfolding eq by simp
qed

lemma confidence_of_degenerate:
  "isna (d_rsi r) \<or> isna (d_atr r) \<or> d_atr r = Fin 0 \<Longrightarrow> confidence_of r b = 0"
  by (auto simp: confidence_of_def Let_def)

text \<open>
  C3. For every series, position and direction flag the confidence lies in \<open>[0, 1]\<close>,
  and it is exactly 0 whenever the RSI or the ATR read at that position is undefined
  or the ATR is zero.
\<close>

theorem confidence_range:
  "0 \<le> calculate_confidence df index b \<and> calculate_confidence df index b \<le> 1
   \<and> (\<forall>r. iloc df index = Inr r \<and> (d_rsi r = NaN \<or> d_atr r = NaN \<or> d_atr r = Fin 0)
          \<longrightarrow> calculate_confidence df index b = 0)"
proof -
  have "0 \<le> calculate_confidence df index b \<and> calculate_confidence df index b \<le> 1"
    using confidence_of_bounds by (simp add: calculate_confidence_def split: sum.split)
  moreover have "calculate_confidence df index b = 0"
    if "iloc df index = Inr r" "d_rsi r = NaN \<or> d_atr r = NaN \<or> d_atr r = Fin 0" for r
    using that confidence_of_degenerate [of r b]
    by (auto simp: calculate_confidence_def)
  ultimately show ?thesis by blast
qed

theorem confidence_range_witness:
  "iloc [flat_row\<lparr>d_atr := Fin 0\<rparr>] 0 = Inr (flat_row\<lparr>d_atr := Fin 0\<rparr>)
   \<and> d_atr (flat_row\<lparr>d_atr := Fin 0\<rparr>) = Fin 0
   \<and> calculate_confidence [flat_row\<lparr>d_atr := Fin 0\<rparr>] 0 True = 0
   \<and> 0 \<le> calculate_confidence [flat_row] 0 True \<and> calculate_confidence [flat_row] 0 True \<le> 1"
  using confidence_range [of "[flat_row\<lparr>d_atr := Fin 0\<rparr>]" 0 True]
    confidence_range [of "[flat_row]" 0 True]
  by (simp add: iloc_def)

section \<open>The detector\<close>

text \<open>
  C10. A series of fewer than 100 rows gives no signal and leaves the detector as it
  was, whatever the configuration, also when the series has the 30 candles of
  \<open>MIN_CANDLES_REQUIRED\<close>.
\<close>

theorem short_series_no_signal:
  "int (length df) < 100 \<Longrightarrow> detect_signal cfg st df = Inr (None, st)"
  by (simp add: detect_signal_def)

theorem short_series_no_signal_witness:
  "MIN_CANDLES_REQUIRED CONFIG \<le> int (length (replicate 50 flat_row))
   \<and> int (length (replicate 50 flat_row)) < 100
   \<and> detect_signal CONFIG new_detector (replicate 50 flat_row) = Inr (None, new_detector)"
  using short_series_no_signal [of "replicate 50 flat_row" CONFIG new_detector]
  by (simp add: CONFIG_def)

subsection \<open>The example series, call by call\<close>

lemma length_series_a: "length (series_a n) = n"
  by (simp add: series_a_def)

lemma iloc_map_series_a:
  "0 \<le> i \<Longrightarrow> i < int n \<Longrightarrow> iloc (map f (series_a n)) i = Inr (f (bar_a (nat i)))"
  by (simp add: iloc_def series_a_def)

lemma iloc_series_a:
  "0 \<le> i \<Longrightarrow> i < int n \<Longrightarrow> iloc (series_a n) i = Inr (bar_a (nat i))"
  by (simp add: iloc_def series_a_def)

lemmas demo_rows = bar_a_def dip_row_def flat_row_def

lemma a_step1: "detect_signal CONFIG new_detector (series_a 100) = Inr (None, detector_1)"
  by (simp add: detect_signal_def length_series_a in_cooldown_def new_detector_def CONFIG_def
        Let_def find_pivot_high_def find_pivot_low_def iloc_map_series_a iloc_series_a
        upto.simps demo_rows detector_1_def low_pivot_def)

lemma conf_a104: "calculate_confidence (series_a 108) 104 True = 0.51"
  by (simp add: calculate_confidence_def iloc_series_a confidence_of_def Let_def demo_rows
        tcs_score_def exhaustion_score_def rsi_bonus_def pullback_bonus_def dma_bonus_def)

lemma a_step2:
  "detect_signal CONFIG detector_1 (series_a 108)
     = Inr (Some (bullish_signal 104 95 30 8), detector_a2)"
  by (simp add: detect_signal_def length_series_a in_cooldown_def CONFIG_def
        Let_def find_pivot_high_def find_pivot_low_def iloc_map_series_a iloc_series_a
        upto.simps demo_rows detector_1_def detector_a2_def low_pivot_def
        bullish_pattern_def bearish_pattern_def conf_a104 bullish_signal_def)


lemma conf_a110: "calculate_confidence (series_a 114) 110 True = 0.51"
  by (simp add: calculate_confidence_def iloc_series_a confidence_of_def Let_def demo_rows
        tcs_score_def exhaustion_score_def rsi_bonus_def pullback_bonus_def dma_bonus_def)

lemma a_step3:
  "detect_signal CONFIG detector_a2 (series_a 114)
     = Inr (Some (bullish_signal 110 90 32 14), detector_a3)"
  by (simp add: detect_signal_def length_series_a in_cooldown_def CONFIG_def
        Let_def find_pivot_high_def find_pivot_low_def iloc_map_series_a iloc_series_a
        upto.simps demo_rows detector_a3_def detector_a2_def low_pivot_def
        bullish_pattern_def bearish_pattern_def conf_a110 bullish_signal_def
        signal_cooldown_bars_def)

lemma length_series_b: "length (series_b n) = n"
  by (simp add: series_b_def)

lemma iloc_map_series_b:
  "0 \<le> i \<Longrightarrow> i < int n \<Longrightarrow> iloc (map f (series_b n)) i = Inr (f (bar_b (nat i)))"
  by (simp add: iloc_def series_b_def)

lemma nth_series_b: "i < n \<Longrightarrow> series_b n ! i = bar_b i"
  by (simp add: series_b_def)

lemma iloc_series_b:
  "0 \<le> i \<Longrightarrow> i < int n \<Longrightarrow> iloc (series_b n) i = Inr (bar_b (nat i))"
  by (simp add: iloc_def series_b_def)

lemmas demo_rows_b = bar_b_def dip_row_def flat_row_def

lemma b_step1: "detect_signal CONFIG new_detector (series_b 100) = Inr (None, detector_1)"
  by (simp add: detect_signal_def length_series_b in_cooldown_def new_detector_def CONFIG_def
        Let_def find_pivot_high_def find_pivot_low_def iloc_map_series_b iloc_series_b
        upto.simps demo_rows_b detector_1_def low_pivot_def)

lemma b_step2: "detect_signal CONFIG detector_1 (series_b 108) = Inr (None, detector_b2)"
  by (simp add: detect_signal_def length_series_b in_cooldown_def CONFIG_def
        Let_def find_pivot_high_def find_pivot_low_def iloc_map_series_b iloc_series_b
        upto.simps demo_rows_b detector_1_def detector_b2_def low_pivot_def
        bullish_pattern_def bearish_pattern_def)

lemma conf_b112: "calculate_confidence (series_b 116) 112 True = 0.51"
  by (simp add: calculate_confidence_def iloc_series_b confidence_of_def Let_def demo_rows_b
        tcs_score_def exhaustion_score_def rsi_bonus_def pullback_bonus_def dma_bonus_def)

lemma b_step3:
  "detect_signal CONFIG detector_b2 (series_b 116)
     = Inr (Some (bullish_signal 112 95 32 16), detector_b3)"
  by (simp add: detect_signal_def length_series_b in_cooldown_def CONFIG_def
        Let_def find_pivot_high_def find_pivot_low_def iloc_map_series_b iloc_series_b
        upto.simps demo_rows_b detector_b3_def detector_b2_def low_pivot_def
        bullish_pattern_def bearish_pattern_def conf_b112 bullish_signal_def)

subsection \<open>Cooldown\<close>

lemma in_cooldown_blocks: "in_cooldown st df \<Longrightarrow> detect_signal cfg st df = Inr (None, st)"
  by (simp add: detect_signal_def)

lemma divergence_loop_marker:
  "divergence_loop cfg df ci a pivot st ps = (res, st') \<Longrightarrow>
     (res = None \<longrightarrow> st' = st) \<and> (res \<noteq> None \<longrightarrow> last_signal_time st' = Some ci)"
  by (induction ps) (auto simp: Let_def split: if_splits)

lemma detect_signal_Some:
  assumes "detect_signal cfg st df = Inr (Some sg, st')"
  shows "last_signal_time st' = Some (int (length df) - PIVOT_LOOKBACK cfg - 1)
       \<and> 100 \<le> int (length df)
       \<and> PIVOT_LOOKBACK cfg \<le> int (length df) - PIVOT_LOOKBACK cfg - 1"
  using assms divergence_loop_marker
  by (fastforce simp: detect_signal_def Let_def split: if_splits sum.splits)

lemma detect_signal_None_marker:
  assumes "detect_signal cfg st df = Inr (None, st')"
  shows "last_signal_time st' = last_signal_time st"
  using assms divergence_loop_marker
  by (fastforce simp: detect_signal_def Let_def split: if_splits sum.splits)

text \<open>
  C1 as stated: after a signal whose candidate index is \<open>k\<close>, a call whose candidate
  index \<open>k'\<close> has \<open>k' - k < 10\<close> returns no signal. It fails: the check compares the
  length of the series, not the candidate index, with the stored index. On the
  example a signal is emitted for candidate 104 (length 108), and the call on length
  114, candidate 110, emits the next one.
\<close>

theorem cooldown_counterexample:
  "detect_signal CONFIG new_detector (series_a 100) = Inr (None, detector_1)
   \<and> detect_signal CONFIG detector_1 (series_a 108)
        = Inr (Some (bullish_signal 104 95 30 8), detector_a2)
   \<and> int (length (series_a 108)) - PIVOT_LOOKBACK CONFIG - 1 = 104
   \<and> int (length (series_a 114)) - PIVOT_LOOKBACK CONFIG - 1 = 110
   \<and> (110::int) - 104 < signal_cooldown_bars
   \<and> detect_signal CONFIG detector_a2 (series_a 114)
        = Inr (Some (bullish_signal 110 90 32 14), detector_a3)"
  using a_step1 a_step2 a_step3
  by (simp add: length_series_a CONFIG_def signal_cooldown_bars_def)

text \<open>
  C1, amended. After \<open>detect_signal\<close> has emitted a signal on a series \<open>df\<close>, with
  candidate index \<open>k = len(df) - lookback - 1\<close>, every call on a detector with that
  marker and a series \<open>df2\<close> with \<open>len(df2) - k < 10\<close>, that is with candidate index
  \<open>k'\<close> such that \<open>k' - k < 10 - lookback - 1\<close>, returns no signal and leaves the
  detector unchanged; from \<open>k' = k + 10 - lookback - 1\<close> on the cooldown check lets the
  call through.
\<close>

theorem cooldown_after_signal:
  assumes "detect_signal cfg st df = Inr (Some sg, st1)"
      and "last_signal_time st2 = last_signal_time st1"
  shows "((int (length df2) - PIVOT_LOOKBACK cfg - 1) - (int (length df) - PIVOT_LOOKBACK cfg - 1)
            < signal_cooldown_bars - PIVOT_LOOKBACK cfg - 1
          \<longrightarrow> detect_signal cfg st2 df2 = Inr (None, st2))
       \<and> (in_cooldown st2 df2 \<longleftrightarrow>
            (int (length df2) - PIVOT_LOOKBACK cfg - 1) - (int (length df) - PIVOT_LOOKBACK cfg - 1)
              < signal_cooldown_bars - PIVOT_LOOKBACK cfg - 1)
       \<and> (in_cooldown st2 df2 \<longleftrightarrow>
            int (length df2) - (int (length df) - PIVOT_LOOKBACK cfg - 1) < signal_cooldown_bars)"
proof -
  let ?k = "int (length df) - PIVOT_LOOKBACK cfg - 1"
  have k: "last_signal_time st1 = Some ?k" "100 \<le> int (length df)" "PIVOT_LOOKBACK cfg \<le> ?k"
    using detect_signal_Some [OF assms(1)] by simp_all
  have nz: "?k \<noteq> 0" using k(2,3) by linarith
  have gate: "in_cooldown st2 df2 \<longleftrightarrow>
      (int (length df2) - PIVOT_LOOKBACK cfg - 1) - ?k < signal_cooldown_bars - PIVOT_LOOKBACK cfg - 1"
    using k(1) nz assms(2) by (auto simp: in_cooldown_def)
  have gate2: "in_cooldown st2 df2 \<longleftrightarrow> int (length df2) - ?k < signal_cooldown_bars"
    using k(1) nz assms(2) by (auto simp: in_cooldown_def)
  show ?thesis
    using gate gate2 in_cooldown_blocks [of st2 df2 cfg] by blast
qed

theorem cooldown_after_signal_witness:
  "detect_signal CONFIG detector_1 (series_a 108)
     = Inr (Some (bullish_signal 104 95 30 8), detector_a2)
   \<and> (int (length (series_a 113)) - PIVOT_LOOKBACK CONFIG - 1)
        - (int (length (series_a 108)) - PIVOT_LOOKBACK CONFIG - 1) = 5
   \<and> signal_cooldown_bars - PIVOT_LOOKBACK CONFIG - 1 = 6
   \<and> detect_signal CONFIG detector_a2 (series_a 113) = Inr (None, detector_a2)
   \<and> in_cooldown detector_a2 (series_a 113)
   \<and> \<not> in_cooldown detector_a2 (series_a 114)"
  using cooldown_after_signal [OF a_step2, of detector_a2 "series_a 113"]
        cooldown_after_signal [OF a_step2, of detector_a2 "series_a 114"] a_step2
  by (simp add: length_series_a CONFIG_def signal_cooldown_bars_def)

subsection \<open>Tie-break\<close>

text \<open>
  C2 as stated: only the nearest eligible prior pivot is pattern-tested, and the call
  returns no signal when that one fails. It fails: the loop has no \<open>break\<close>. On the
  example the nearest eligible pivot of candidate 112 is the one at 104, which fails
  the pattern test (no lower low); the loop goes on to the pivot at 96 and the call
  returns a signal with 16 bars between.
\<close>

theorem tie_break_counterexample:
  "detect_signal CONFIG new_detector (series_b 100) = Inr (None, detector_1)
   \<and> detect_signal CONFIG detector_1 (series_b 108) = Inr (None, detector_b2)
   \<and> find (eligible (low_pivot 112 95 32)) (rev (recent_pivots detector_b2))
        = Some (low_pivot 104 90 20)
   \<and> \<not> bullish_pattern (low_pivot 112 95 32) (low_pivot 104 90 20)
   \<and> \<not> bearish_pattern (low_pivot 112 95 32) (low_pivot 104 90 20)
   \<and> detect_signal CONFIG detector_b2 (series_b 116)
        = Inr (Some (bullish_signal 112 95 32 16), detector_b3)"
  using b_step1 b_step2 b_step3
  by (simp add: eligible_def low_pivot_def detector_b2_def bullish_pattern_def
        bearish_pattern_def)

lemma divergence_loop_find:
  "p_index pivot = ci \<Longrightarrow>
   divergence_loop cfg df ci a pivot st ps
     = (case find (passes cfg df pivot) ps of
          None \<Rightarrow> (None, st)
        | Some prev_pivot \<Rightarrow>
            (Some \<lparr> s_type = (if p_type pivot = Low then BULLISH else BEARISH),
                     s_time = p_time pivot, s_price = p_price pivot, s_rsi = p_rsi pivot,
                     s_confidence = calculate_confidence df ci (p_type pivot = Low),
                     s_atr = a, s_bars_between = ci - p_index prev_pivot \<rparr>,
             st\<lparr> last_signal_time := Some ci \<rparr>))"
proof (induction ps)
  case Nil
  show ?case by simp
next
  case (Cons p ps)
  show ?case
  proof (cases "passes cfg df pivot p")
    case True
    then show ?thesis
      using Cons.prems
      by (auto simp: passes_def eligible_def bullish_pattern_def bearish_pattern_def Let_def)
  next
    case False
    then have "divergence_loop cfg df ci a pivot st (p # ps)
                 = divergence_loop cfg df ci a pivot st ps"
      using Cons.prems
      by (auto simp: passes_def eligible_def bullish_pattern_def bearish_pattern_def Let_def)
    then show ?thesis using False Cons by simp
  qed
qed

lemma candidate_pivot_index:
  "candidate_pivot cfg df = Some pivot \<Longrightarrow>
     p_index pivot = int (length df) - PIVOT_LOOKBACK cfg - 1"
  by (auto simp: candidate_pivot_def Let_def split: if_splits)

text \<open>
  C2, amended. When a call stores a candidate pivot, it scans the pruned window without
  the candidate, newest first, and returns a signal for the first prior pivot that
  passes (same type, at least 8 bars before, pattern test, confidence at least the
  minimum); it returns no signal when none passes, in particular when the confidence
  is below the minimum. The candidate is the last pivot of the window in either case.
\<close>

theorem first_passing_match:
  assumes "100 \<le> int (length df)" and "\<not> in_cooldown st df"
    and "0 \<le> PIVOT_LOOKBACK cfg" and "0 \<le> MAX_LOOKBACK_BARS cfg"
    and "candidate_pivot cfg df = Some pivot"
  shows "detect_signal cfg st df
           = Inr (case find (passes cfg df pivot)
                         (rev (butlast (filter (\<lambda>p. p_index pivot - p_index p \<le> MAX_LOOKBACK_BARS cfg)
                                          (recent_pivots st @ [pivot])))) of
                    None \<Rightarrow>
                      (None,
                       st\<lparr> recent_pivots :=
                             filter (\<lambda>p. p_index pivot - p_index p \<le> MAX_LOOKBACK_BARS cfg)
                               (recent_pivots st @ [pivot]) \<rparr>)
                  | Some prev_pivot \<Rightarrow>
                      (Some \<lparr> s_type = (if p_type pivot = Low then BULLISH else BEARISH),
                               s_time = p_time pivot, s_price = p_price pivot,
                               s_rsi = p_rsi pivot,
                               s_confidence =
                                 calculate_confidence df (p_index pivot) (p_type pivot = Low),
                               s_atr = d_atr (df ! nat (p_index pivot)),
                               s_bars_between = p_index pivot - p_index prev_pivot \<rparr>,
                       st\<lparr> recent_pivots :=
                             filter (\<lambda>p. p_index pivot - p_index p \<le> MAX_LOOKBACK_BARS cfg)
                               (recent_pivots st @ [pivot]),
                           last_signal_time := Some (p_index pivot) \<rparr>))
       \<and> last (filter (\<lambda>p. p_index pivot - p_index p \<le> MAX_LOOKBACK_BARS cfg)
                  (recent_pivots st @ [pivot])) = pivot
       \<and> (calculate_confidence df (p_index pivot) (p_type pivot = Low) < MIN_CONFIDENCE cfg
            \<longrightarrow> find (passes cfg df pivot)
                  (rev (butlast (filter (\<lambda>p. p_index pivot - p_index p \<le> MAX_LOOKBACK_BARS cfg)
                                   (recent_pivots st @ [pivot])))) = None)"
proof -
  let ?L = "PIVOT_LOOKBACK cfg"
  let ?ci = "int (length df) - ?L - 1"
  let ?w = "filter (\<lambda>p. p_index pivot - p_index p \<le> MAX_LOOKBACK_BARS cfg)
              (recent_pivots st @ [pivot])"
  have ci: "p_index pivot = ?ci" using candidate_pivot_index [OF assms(5)] .
  obtain h l where h: "find_pivot_high (map d_high df) ?ci ?L = Inr h"
    and l: "find_pivot_low (map d_low df) ?ci ?L = Inr l"
    using find_pivot_high_char [OF assms(3)] find_pivot_low_char [OF assms(3)] by blast
  have hl: "h \<or> l"
    using assms(5) h l by (auto simp: candidate_pivot_def Let_def split: if_splits)
  have hr: "h \<longrightarrow> ?L \<le> ?ci"
    using h find_pivot_high_char [OF assms(3), of "map d_high df" ?ci] by auto
  have lr: "l \<longrightarrow> ?L \<le> ?ci"
    using l find_pivot_low_char [OF assms(3), of "map d_low df" ?ci] by auto
  have rng: "?L \<le> ?ci" "0 \<le> ?ci" "?ci < int (length df)"
    using hl hr lr assms(3) by auto
  have row: "iloc df ?ci = Inr (df ! nat ?ci)"
    using rng by (simp add: iloc_in_range)
  have pv: "pivot = \<lparr> p_index = ?ci, p_type = (if h then High else Low),
                       p_price = (if h then d_high (df ! nat ?ci) else d_low (df ! nat ?ci)),
                       p_rsi = d_rsi (df ! nat ?ci), p_time = d_time (df ! nat ?ci) \<rparr>"
    using assms(5) h l hl by (auto simp: candidate_pivot_def Let_def split: if_splits)
  let ?P = "\<lparr> p_index = ?ci, p_type = (if h then High else Low),
                 p_price = (if h then d_high (df ! nat ?ci) else d_low (df ! nat ?ci)),
                 p_rsi = d_rsi (df ! nat ?ci), p_time = d_time (df ! nat ?ci) \<rparr>"
  have ds0: "detect_signal cfg st df
              = Inr (divergence_loop cfg df ?ci (d_atr (df ! nat ?ci)) ?P
                       (st\<lparr> recent_pivots :=
                             filter (\<lambda>p. ?ci - p_index p \<le> MAX_LOOKBACK_BARS cfg)
                               (recent_pivots st @ [?P]) \<rparr>)
                       (rev (butlast (filter (\<lambda>p. ?ci - p_index p \<le> MAX_LOOKBACK_BARS cfg)
                                        (recent_pivots st @ [?P])))))"
    using assms(1,2) rng(1) h l hl row
    by (cases h; cases l) (simp_all add: detect_signal_def Let_def)
  have ds: "detect_signal cfg st df
              = Inr (divergence_loop cfg df ?ci (d_atr (df ! nat ?ci)) pivot
                       (st\<lparr> recent_pivots := ?w \<rparr>) (rev (butlast ?w)))"
    using ds0 by (simp add: pv)
  have keep: "last ?w = pivot"
    using assms(4) by simp
  have low: "find (passes cfg df pivot) (rev (butlast ?w)) = None"
    if "calculate_confidence df (p_index pivot) (p_type pivot = Low) < MIN_CONFIDENCE cfg"
    using that by (simp add: find_None_iff passes_def)
  show ?thesis
    unfolding ds divergence_loop_find [OF ci] using keep low
    by (simp add: ci split: option.split)
qed

theorem first_passing_match_witness:
  "100 \<le> int (length (series_b 116)) \<and> \<not> in_cooldown detector_b2 (series_b 116)
   \<and> 0 \<le> PIVOT_LOOKBACK CONFIG \<and> 0 \<le> MAX_LOOKBACK_BARS CONFIG
   \<and> candidate_pivot CONFIG (series_b 116) = Some (low_pivot 112 95 32)
   \<and> find (passes CONFIG (series_b 116) (low_pivot 112 95 32))
         (rev (butlast (recent_pivots detector_b3))) = Some (low_pivot 96 100 25)
   \<and> detect_signal CONFIG detector_b2 (series_b 116)
        = Inr (Some (bullish_signal 112 95 32 16), detector_b3)"
proof -
  have c: "candidate_pivot CONFIG (series_b 116) = Some (low_pivot 112 95 32)"
    by (simp add: candidate_pivot_def length_series_b CONFIG_def Let_def
          find_pivot_high_def find_pivot_low_def iloc_map_series_b upto.simps demo_rows_b
          low_pivot_def nth_series_b)
  have g: "\<not> in_cooldown detector_b2 (series_b 116)"
    by (simp add: in_cooldown_def detector_b2_def)
  have n: "100 \<le> int (length (series_b 116))" by (simp add: length_series_b)
  have k: "0 \<le> PIVOT_LOOKBACK CONFIG" "0 \<le> MAX_LOOKBACK_BARS CONFIG"
    by (simp_all add: CONFIG_def)
  have conf: "calculate_confidence (series_b 116) (p_index (low_pivot 112 95 32)) True = 0.51"
    using conf_b112 by (simp add: low_pivot_def)
  have f: "find (passes CONFIG (series_b 116) (low_pivot 112 95 32))
         (rev (butlast (recent_pivots detector_b3))) = Some (low_pivot 96 100 25)"
    using conf
    by (simp add: detector_b3_def passes_def eligible_def bullish_pattern_def
          bearish_pattern_def low_pivot_def CONFIG_def)
  show ?thesis
    using first_passing_match [OF n g k c] c g n k f b_step3 by simp
qed

section \<open>The candle aggregator\<close>

text \<open>
  C6 as stated: the first bar seeds the working candle with open, high, low and close
  all equal to the bar's close. It fails on a bar with open 1, high 3, low 0, close 2.
\<close>

theorem first_tick_seed_counterexample:
  "current_candle new_collector = None
   \<and> map_option w_open (current_candle (on_bar new_collector tick_a)) = Some 1
   \<and> map_option w_high (current_candle (on_bar new_collector tick_a)) = Some 3
   \<and> map_option w_low (current_candle (on_bar new_collector tick_a)) = Some 0
   \<and> t_close tick_a = 2"
  by (simp add: on_bar_def process_minute_bar_def new_collector_def tick_a_def start_candle_def)

text \<open>
  C6, amended. On the first bar received while there is no working candle, the working
  candle takes the bar's own open, high, low, close and volume, a count of 1, and the
  period starts at the bar's timestamp.
\<close>

theorem first_tick_seed:
  "current_candle s = None \<Longrightarrow>
   on_bar s b = s\<lparr> latest_price := Some (t_close b), latest_bar_data := Some b,
                   current_candle := Some \<lparr> w_timestamp = t_timestamp b, w_open = t_open b,
                                            w_high = t_high b, w_low = t_low b,
                                            w_close = t_close b, w_volume = t_volume b,
                                            bars_in_candle = 1 \<rparr>,
                   candle_start := Some (t_timestamp b) \<rparr>"
  by (simp add: on_bar_def process_minute_bar_def start_candle_def)

theorem first_tick_seed_witness:
  "current_candle new_collector = None
   \<and> current_candle (on_bar new_collector tick_a)
       = Some \<lparr> w_timestamp = 0, w_open = 1, w_high = 3, w_low = 0, w_close = 2,
                w_volume = 5, bars_in_candle = 1 \<rparr>
   \<and> candle_start (on_bar new_collector tick_a) = Some 0"
  using first_tick_seed [of new_collector tick_a]
  by (simp add: new_collector_def tick_a_def)














section \<open>Position sizing\<close>

lemma round6_example: "round6 (10000 * 0.10 / 75 / 30000) = 0.000444"
  by (simp add: round6_def round_half_even_def Let_def)




end
